theory Spec2Isabelle
  imports Complex_Main "HOL-Library.Char_ord" "HOL-Library.List_Lexorder"
begin

section \<open>Strings\<close>

text \<open>
  A JavaScript string is modelled by \<^typ>\<open>string\<close>, the list of its code units; the
  type \<^typ>\<open>char\<close> covers the code units 0 to 255. The relational operators of
  JavaScript compare two strings code unit by code unit, a proper prefix being the
  smaller one: this is the lexicographic order on lists over the order on characters.
\<close>

definition js_whitespace :: "char \<Rightarrow> bool" where
  \<comment> \<open>the white space and line terminators of \<open>String.prototype.trim\<close> below 256:
     TAB, LF, VT, FF, CR, SPACE, NO-BREAK SPACE\<close>
  "js_whitespace c = (of_char c \<in> {9::nat, 10, 11, 12, 13, 32, 160})"

definition trim :: "string \<Rightarrow> string" where
  "trim s = rev (dropWhile js_whitespace (rev (dropWhile js_whitespace s)))"

section \<open>backend/websocket\_auth.ts\<close>

subsection \<open>WebSocketAuthenticator\<close>

record AuthData =
  ad_userId :: string
  ad_email :: string

text \<open>
  \<open>Result<AuthData, string>\<close>: \<open>Inl\<close> is \<open>{ok: false, error}\<close>, \<open>Inr\<close> is
  \<open>{ok: true, value}\<close>.
\<close>

type_synonym AuthResult = "string + AuthData"

record User =
  user_id :: string
  user_email :: string

text \<open>
  The identity provider is the collaborator \<open>supabase.auth.getUser\<close>, a parameter of the
  authenticator. One call either resolves to \<open>{data: {user}, error}\<close>, where \<open>error\<close> is
  null or an object with a \<open>message\<close> and \<open>user\<close> is null or a user, or it throws;
  \<open>Threw m\<close> carries the text that the catch clause of \<open>validateJWT\<close> reads off what
  was thrown (\<open>error.message\<close> of an \<open>Error\<close>, \<open>String(error)\<close> otherwise).
\<close>

datatype getUser_outcome =
    Resolved (error_message: "string option") (data_user: "User option")
  | Threw string

type_synonym SupabaseClient = "string \<Rightarrow> getUser_outcome"

text \<open>
  \<open>validateJWT\<close> returns, next to its result, the tokens it has passed to
  \<open>getUser\<close>, in order: the trace of its calls to the provider.
\<close>

definition validateJWT :: "SupabaseClient \<Rightarrow> string \<Rightarrow> string list \<times> AuthResult" where
  "validateJWT supabase jwt =
     (if jwt = [] \<or> trim jwt = [] then ([], Inl ''Missing JWT token'')
      else
        ([jwt],
         (case supabase jwt of
            Threw m \<Rightarrow> Inl (''JWT validation failed: '' @ m)
          | Resolved err usr \<Rightarrow>
              (case err of
                 Some m \<Rightarrow> Inl m
               | None \<Rightarrow>
                   (case usr of
                      None \<Rightarrow> Inl ''No user found for token''
                    | Some u \<Rightarrow> Inr \<lparr>ad_userId = user_id u, ad_email = user_email u\<rparr>)))))"

text \<open>
  \<open>new URL(url)\<close> and its \<open>searchParams\<close> belong to the runtime and are a parameter:
  \<open>None\<close> when the constructor throws, otherwise the decoded name/value pairs of the
  query, in order. \<open>searchParams.get\<close> returns the value of the first pair with the
  given name, or null.
\<close>

type_synonym URL = "string \<Rightarrow> (string \<times> string) list option"

definition extractJWTFromURL :: "URL \<Rightarrow> string \<Rightarrow> string option" where
  "extractJWTFromURL newURL url =
     (case newURL url of
        None \<Rightarrow> None
      | Some searchParams \<Rightarrow> map_of searchParams ''token'')"

subsection \<open>ConnectionManager\<close>

text \<open>
  The private field \<open>connections\<close> is a \<open>Map<string, WebSocket>\<close>; each method takes the
  map and, where it mutates, returns the new one. A WebSocket is an object, compared by
  identity: an element of the type parameter \<open>'ws\<close>. \<open>addConnection\<close> is declared
  \<open>void\<close>: the value of a call is \<open>undefined\<close>, written \<open>None\<close>. In \<open>getConnection\<close>
  the result \<open>None\<close> is \<open>null\<close> (an object is never falsy, so \<open>|| null\<close> only replaces
  \<open>undefined\<close>).
\<close>

type_synonym 'ws connections = "string \<rightharpoonup> 'ws"

definition addConnection ::
  "string \<Rightarrow> 'ws \<Rightarrow> 'ws connections \<Rightarrow> 'ws option \<times> 'ws connections" where
  "addConnection userId webSocket conns = (None, conns(userId \<mapsto> webSocket))"

definition removeConnection :: "string \<Rightarrow> 'ws connections \<Rightarrow> 'ws connections" where
  "removeConnection userId conns = conns(userId := None)"

definition hasConnection :: "string \<Rightarrow> 'ws connections \<Rightarrow> bool" where
  "hasConnection userId conns = (conns userId \<noteq> None)"

definition getConnection :: "string \<Rightarrow> 'ws connections \<Rightarrow> 'ws option" where
  "getConnection userId conns = conns userId"

section \<open>Unified types: records and transformations\<close>

datatype FriendshipStatus = Pending | Accepted | Blocked

datatype MessageType = Text | Image | System

datatype RealtimeMessageType =
    Chat | Game_move | Game_invite | Game_accept | Game_complete
  | Friend_request | Friend_accept | Presence_update | Typing_indicator | Connection_status

text \<open>
  The interfaces share field names (\<open>id\<close>, \<open>created_at\<close>, \<open>status\<close>); each record
  prefixes its fields to keep them apart.
\<close>

record UserProfile =
  up_id :: string
  up_email :: string
  up_display_name :: string
  up_avatar_url :: "string option"
  up_created_at :: string
  up_updated_at :: string

record Friendship =
  fr_id :: string
  fr_user1_id :: string
  fr_user2_id :: string
  fr_status :: FriendshipStatus
  fr_created_at :: string
  fr_accepted_at :: "string option"

record ChatMessageRecord =
  cm_id :: string
  cm_sender_id :: string
  cm_receiver_id :: string
  cm_content :: string
  cm_message_type :: MessageType
  cm_created_at :: string
  cm_read_at :: "string option"

text \<open>\<open>Omit<ChatMessageRecord, 'created_at' | 'read_at'>\<close>\<close>

record ChatMessageDraft =
  cd_id :: string
  cd_sender_id :: string
  cd_receiver_id :: string
  cd_content :: string
  cd_message_type :: MessageType

record 'p RealtimeMessage =
  rm_type :: RealtimeMessageType
  rm_payload :: 'p
  rm_userId :: string
  rm_timestamp :: string
  rm_messageId :: "string option"

record ChatPayload =
  cp_content :: string
  cp_receiverId :: string
  cp_messageType :: MessageType

record FriendRequestPayload =
  targetUserId :: string
  requesterId :: string
  requesterName :: string

definition chatRecordToRealtime :: "ChatMessageRecord \<Rightarrow> ChatPayload RealtimeMessage" where
  "chatRecordToRealtime rec =
     \<lparr>rm_type = Chat,
      rm_payload =
        \<lparr>cp_content = cm_content rec,
         cp_receiverId = cm_receiver_id rec,
         cp_messageType = cm_message_type rec\<rparr>,
      rm_userId = cm_sender_id rec,
      rm_timestamp = cm_created_at rec,
      rm_messageId = Some (cm_id rec)\<rparr>"

definition realtimeChatToRecord ::
  "ChatPayload RealtimeMessage \<Rightarrow> string \<Rightarrow> ChatMessageDraft" where
  "realtimeChatToRecord message generatedId =
     \<lparr>cd_id = generatedId,
      cd_sender_id = rm_userId message,
      cd_receiver_id = cp_receiverId (rm_payload message),
      cd_content = cp_content (rm_payload message),
      cd_message_type = cp_messageType (rm_payload message)\<rparr>"

definition friendshipToRealtimeRequest ::
  "Friendship \<Rightarrow> UserProfile \<Rightarrow> FriendRequestPayload RealtimeMessage" where
  "friendshipToRealtimeRequest friendship requesterProfile =
     \<lparr>rm_type = Friend_request,
      rm_payload =
        \<lparr>targetUserId = fr_user2_id friendship,
         requesterId = fr_user1_id friendship,
         requesterName = up_display_name requesterProfile\<rparr>,
      rm_userId = fr_user1_id friendship,
      rm_timestamp = fr_created_at friendship,
      rm_messageId = Some (fr_id friendship)\<rparr>"

definition ensureFriendshipOrdering :: "string \<Rightarrow> string \<Rightarrow> string \<times> string" where
  "ensureFriendshipOrdering user1Id user2Id =
     (if user1Id < user2Id then (user1Id, user2Id) else (user2Id, user1Id))"

section \<open>Unified types: validation of untyped values\<close>

subsection \<open>JavaScript values\<close>

text \<open>
  The validators take \<open>any\<close>. A number is an IEEE double: a finite one is the rational
  it denotes (comparison of finite doubles is comparison of their values; the two zeros
  are both \<open>Finite 0\<close>), the others are NaN and the infinities.
\<close>

datatype jsnum = Finite rat | NaN | PosInf | NegInf

datatype jsval =
    JUndefined
  | JNull
  | JBool bool
  | JNum jsnum
  | JStr string
  | JArr "jsval list"
  | JObj "(string \<times> jsval) list"

fun truthy :: "jsval \<Rightarrow> bool" where
  "truthy JUndefined = False"
| "truthy JNull = False"
| "truthy (JBool b) = b"
| "truthy (JNum (Finite r)) = (r \<noteq> 0)"
| "truthy (JNum NaN) = False"
| "truthy (JNum PosInf) = True"
| "truthy (JNum NegInf) = True"
| "truthy (JStr s) = (s \<noteq> [])"
| "truthy (JArr xs) = True"
| "truthy (JObj fs) = True"

fun typeof :: "jsval \<Rightarrow> string" where
  "typeof JUndefined = ''undefined''"
| "typeof JNull = ''object''"
| "typeof (JBool b) = ''boolean''"
| "typeof (JNum n) = ''number''"
| "typeof (JStr s) = ''string''"
| "typeof (JArr xs) = ''object''"
| "typeof (JObj fs) = ''object''"

text \<open>
  \<open>get v name\<close> is the property read \<open>v.name\<close> for the names the validators read:
  an own property of an object (the first entry of that name), \<open>length\<close> of an array or a
  string, and \<open>undefined\<close> otherwise. On \<open>null\<close> and \<open>undefined\<close> the read throws; the
  validators read properties of truthy values only, so that case is never reached.
\<close>

fun get :: "jsval \<Rightarrow> string \<Rightarrow> jsval" where
  "get (JObj fs) name = (case map_of fs name of Some v \<Rightarrow> v | None \<Rightarrow> JUndefined)"
| "get (JArr xs) name =
     (if name = ''length'' then JNum (Finite (of_nat (length xs))) else JUndefined)"
| "get (JStr s) name =
     (if name = ''length'' then JNum (Finite (of_nat (length s))) else JUndefined)"
| "get v name = JUndefined"

text \<open>\<open>n < c\<close> and \<open>n > c\<close> for a number \<open>n\<close> and a finite constant \<open>c\<close>.\<close>

fun js_lt :: "jsnum \<Rightarrow> rat \<Rightarrow> bool" where
  "js_lt (Finite r) c = (r < c)"
| "js_lt NaN c = False"
| "js_lt PosInf c = False"
| "js_lt NegInf c = True"

fun js_gt :: "jsnum \<Rightarrow> rat \<Rightarrow> bool" where
  "js_gt (Finite r) c = (r > c)"
| "js_gt NaN c = False"
| "js_gt PosInf c = True"
| "js_gt NegInf c = False"

text \<open>
  \<open>a === b\<close>. Primitive values are compared by value, NaN being unequal to itself. Objects
  and arrays are equal only to themselves; the values held by two properties of a
  message are separate objects.
\<close>

fun strict_eq :: "jsval \<Rightarrow> jsval \<Rightarrow> bool" where
  "strict_eq (JObj fs) b = False"
| "strict_eq (JArr xs) b = False"
| "strict_eq (JNum NaN) b = False"
| "strict_eq a b = (a = b)"

text \<open>\<open>typeof v !== "string" || !p(v)\<close>\<close>

fun not_string_or_fails :: "(string \<Rightarrow> bool) \<Rightarrow> jsval \<Rightarrow> bool" where
  "not_string_or_fails p (JStr s) = (\<not> p s)"
| "not_string_or_fails p v = True"

text \<open>\<open>list.includes(v)\<close> for a list of string literals\<close>

fun includes_str :: "string list \<Rightarrow> jsval \<Rightarrow> bool" where
  "includes_str list (JStr s) = List.member list s"
| "includes_str list v = False"

text \<open>\<open>!Array.isArray(v) || v.length !== n\<close>\<close>

fun not_array_of_length :: "nat \<Rightarrow> jsval \<Rightarrow> bool" where
  "not_array_of_length n (JArr xs) = (length xs \<noteq> n)"
| "not_array_of_length n v = True"

subsection \<open>Format checks\<close>

definition hex_digit :: "char \<Rightarrow> bool" where
  "hex_digit c = List.member ''0123456789abcdefABCDEF'' c"

text \<open>
  The regular expression
  \<^verbatim>\<open>/^[0-9a-f]{8}-[0-9a-f]{4}-[1-5][0-9a-f]{3}-[89ab][0-9a-f]{3}-[0-9a-f]{12}$/i\<close>
\<close>

definition isValidUUID :: "string \<Rightarrow> bool" where
  "isValidUUID uuid =
     (length uuid = 36 \<and>
      list_all hex_digit (take 8 uuid) \<and>
      uuid ! 8 = CHR ''-'' \<and>
      list_all hex_digit (take 4 (drop 9 uuid)) \<and>
      uuid ! 13 = CHR ''-'' \<and>
      List.member ''12345'' (uuid ! 14) \<and>
      list_all hex_digit (take 3 (drop 15 uuid)) \<and>
      uuid ! 18 = CHR ''-'' \<and>
      List.member ''89abAB'' (uuid ! 19) \<and>
      list_all hex_digit (take 3 (drop 20 uuid)) \<and>
      uuid ! 23 = CHR ''-'' \<and>
      list_all hex_digit (drop 24 uuid))"




definition isValidGameType :: "jsval \<Rightarrow> bool" where
  "isValidGameType gameType = includes_str [''tic_tac_toe''] gameType"


subsection \<open>Validators\<close>

record ValidationResult =
  isValid :: bool
  errors :: "string list"

text \<open>\<open>if (c) errors.push(message)\<close>: the strings pushed, to be appended in order.\<close>

definition push_if :: "bool \<Rightarrow> string \<Rightarrow> string list" where
  "push_if c message = (if c then [message] else [])"

definition result_of :: "string list \<Rightarrow> ValidationResult" where
  "result_of errs = \<lparr>isValid = (length errs = 0), errors = errs\<rparr>"



text \<open>\<open>typeof v !== "number" || v < 0 || v > 8\<close>\<close>

fun position_out_of_range :: "jsval \<Rightarrow> bool" where
  "position_out_of_range (JNum n) = (js_lt n 0 \<or> js_gt n 8)"
| "position_out_of_range v = True"

definition validateGameMovePayload :: "jsval \<Rightarrow> ValidationResult" where
  "validateGameMovePayload payload =
     (if \<not> truthy payload \<or> typeof payload \<noteq> ''object''
      then \<lparr>isValid = False, errors = [''Game move payload must be an object'']\<rparr>
      else result_of
        (push_if (\<not> truthy (get payload ''sessionId'') \<or>
                 not_string_or_fails isValidUUID (get payload ''sessionId''))
           ''Invalid UUID format for sessionId'' @
         push_if (\<not> truthy (get payload ''gameType'') \<or>
                 \<not> isValidGameType (get payload ''gameType''))
           ''Invalid game type'' @
         push_if (\<not> truthy (get payload ''moveData'') \<or>
                 typeof (get payload ''moveData'') \<noteq> ''object'')
           ''Move data must be an object'' @
         (if strict_eq (get payload ''gameType'') (JStr ''tic_tac_toe'') \<and>
             truthy (get payload ''moveData'')
          then push_if (position_out_of_range (get (get payload ''moveData'') ''position''))
                 ''Tic-tac-toe position must be a number between 0 and 8'' @
               push_if (\<not> truthy (get (get payload ''moveData'') ''player'') \<or>
                        not_string_or_fails isValidUUID
                          (get (get payload ''moveData'') ''player''))
                 ''Invalid UUID format for player'' @
               push_if (not_array_of_length 9 (get (get payload ''moveData'') ''boardState''))
                 ''Board state must be an array of 9 elements''
          else [])))"

section \<open>Fixtures of the test suites\<close>




text \<open>\<open>{...validGameMovePayload, moveData: {...validTicTacToeMoveData, position}}\<close>\<close>

definition gameMovePayloadWith :: "jsval \<Rightarrow> jsval" where
  "gameMovePayloadWith position =
     JObj [(''sessionId'', JStr ''123e4567-e89b-12d3-a456-426614174003''),
           (''gameType'', JStr ''tic_tac_toe''),
           (''moveData'',
            JObj [(''position'', position),
                  (''player'', JStr ''123e4567-e89b-12d3-a456-426614174000''),
                  (''boardState'',
                   JArr [JStr [], JStr [], JStr [], JStr [], JStr ''X'',
                         JStr [], JStr [], JStr [], JStr []])])]"

definition validFriendship :: Friendship where
  "validFriendship =
     \<lparr>fr_id = ''123e4567-e89b-12d3-a456-426614174001'',
      fr_user1_id = ''123e4567-e89b-12d3-a456-426614174000'',
      fr_user2_id = ''123e4567-e89b-12d3-a456-426614174002'',
      fr_status = Accepted,
      fr_created_at = ''2025-06-05T12:00:00.000Z'',
      fr_accepted_at = Some ''2025-06-05T12:00:00.000Z''\<rparr>"

text \<open>\<open>{...validUserProfile, id}\<close>\<close>

definition userProfileWith :: "string \<Rightarrow> UserProfile" where
  "userProfileWith ident =
     \<lparr>up_id = ident,
      up_email = ''test@example.com'',
      up_display_name = ''Test User'',
      up_avatar_url = None,
      up_created_at = ''2025-06-05T12:00:00.000Z'',
      up_updated_at = ''2025-06-05T12:00:00.000Z''\<rparr>"

definition validChatMessageRecord :: ChatMessageRecord where
  "validChatMessageRecord =
     \<lparr>cm_id = ''123e4567-e89b-12d3-a456-426614174004'',
      cm_sender_id = ''123e4567-e89b-12d3-a456-426614174000'',
      cm_receiver_id = ''123e4567-e89b-12d3-a456-426614174002'',
      cm_content = ''Hello friend!'',
      cm_message_type = Text,
      cm_created_at = ''2025-06-05T12:00:00.000Z'',
      cm_read_at = None\<rparr>"

definition mockSupabase :: SupabaseClient where
  "mockSupabase jwt =
     (if jwt = ''valid_jwt_token''
      then Resolved None (Some \<lparr>user_id = ''user_123'', user_email = ''test@example.com''\<rparr>)
      else if jwt = ''expired_jwt_token'' then Resolved (Some ''JWT expired'') None
      else Resolved (Some ''Invalid JWT'') None)"

text \<open>A provider that resolves to \<open>{data: {user: null}, error: null}\<close>.\<close>

definition silentSupabase :: SupabaseClient where
  "silentSupabase jwt = Resolved None None"

text \<open>A provider whose call throws \<open>new Error("network down")\<close>.\<close>

definition throwingSupabase :: SupabaseClient where
  "throwingSupabase jwt = Threw ''network down''"

text \<open>
  A stand-in for the runtime's \<open>URL\<close> on the handshake URLs of the tests: no query,
  a token, an empty token, and a string that is not a URL.
\<close>

definition fixtureURL :: URL where
  "fixtureURL url =
     (if url = ''ws://host/ws'' then Some []
      else if url = ''ws://host/ws?token=abc123'' then Some [(''token'', ''abc123'')]
      else if url = ''ws://host/ws?token='' then Some [(''token'', [])]
      else None)"

section \<open>Helper lemmas\<close>

lemma trim_empty_iff: "trim s = [] \<longleftrightarrow> list_all js_whitespace s"
proof
  assume "trim s = []"
  then have all: "\<forall>x\<in>set (dropWhile js_whitespace s). js_whitespace x"
    by (simp add: trim_def dropWhile_eq_Nil_conv)
  have "dropWhile js_whitespace s = []"
  proof (rule ccontr)
    assume ne: "dropWhile js_whitespace s \<noteq> []"
    then have "\<not> js_whitespace (hd (dropWhile js_whitespace s))"
      by (rule hd_dropWhile)
    moreover have "hd (dropWhile js_whitespace s) \<in> set (dropWhile js_whitespace s)"
      using ne by (rule hd_in_set)
    ultimately show False using all by blast
  qed
  then show "list_all js_whitespace s"
    by (simp add: dropWhile_eq_Nil_conv list_all_iff)
next
  assume "list_all js_whitespace s"
  then have "dropWhile js_whitespace s = []"
    by (simp add: dropWhile_eq_Nil_conv list_all_iff)
  then show "trim s = []"
    unfolding trim_def by (simp only: rev.simps dropWhile.simps)
qed

lemma validateJWT_missing:
  "jwt = [] \<or> list_all js_whitespace jwt \<Longrightarrow>
     validateJWT supabase jwt = ([], Inl ''Missing JWT token'')"
  by (auto simp: validateJWT_def trim_empty_iff)

lemma validateJWT_delegates:
  "\<not> (jwt = [] \<or> list_all js_whitespace jwt) \<Longrightarrow>
     validateJWT supabase jwt =
       ([jwt],
        case supabase jwt of
          Threw m \<Rightarrow> Inl (''JWT validation failed: '' @ m)
        | Resolved None None \<Rightarrow> Inl ''No user found for token''
        | Resolved None (Some u) \<Rightarrow> Inr \<lparr>ad_userId = user_id u, ad_email = user_email u\<rparr>
        | Resolved (Some m) usr \<Rightarrow> Inl m)"
  by (auto simp: validateJWT_def trim_empty_iff split: getUser_outcome.splits option.splits)

lemma strict_eq_JStr: "strict_eq a (JStr s) = (a = JStr s)"
  by (induction a "JStr s" rule: strict_eq.induct) auto


lemma errors_result_of: "errors (result_of es) = es"
  by (simp add: result_of_def)

lemma set_push_if: "set (push_if c m) = (if c then {m} else {})"
  by (simp add: push_if_def)


lemma nine_halves_not_int: "(9 / 2 :: rat) \<notin> \<int>"
proof
  assume "(9 / 2 :: rat) \<in> \<int>"
  then obtain k :: int where "(9 / 2 :: rat) = of_int k"
    by (auto elim: Ints_cases)
  then have "(9 :: rat) = of_int (2 * k)" by simp
  then have "(9 :: int) = 2 * k" by (metis of_int_eq_iff of_int_numeral)
  then show False by presburger
qed

section \<open>Connection registry\<close>

text \<open>
  C1, as the code has it. After \<open>addConnection(u, c1)\<close> and \<open>addConnection(u, c2)\<close>,
  \<open>getConnection(u)\<close> returns \<open>c2\<close>. \<open>addConnection\<close> returns nothing: the value of
  the second call is \<open>undefined\<close>, not the displaced connection \<open>c1\<close>.
\<close>

theorem addConnection_replaces:
  "getConnection u (snd (addConnection u c2 (snd (addConnection u c1 conns)))) = Some c2 \<and>
   fst (addConnection u c2 (snd (addConnection u c1 conns))) = None"
  by (simp add: getConnection_def addConnection_def)

theorem addConnection_replaces_witness:
  "getConnection ''user_123''
     (snd (addConnection ''user_123'' (2::nat)
        (snd (addConnection ''user_123'' 1 Map.empty)))) = Some 2 \<and>
   fst (addConnection ''user_123'' (2::nat)
        (snd (addConnection ''user_123'' 1 Map.empty))) = None"
  by (rule addConnection_replaces [of "''user_123''" 2 1 Map.empty])

text \<open>
  C1 as stated fails: the second registration of \<open>user_123\<close>, displacing connection 1
  by connection 2, does not return connection 1.
\<close>

theorem addConnection_returns_no_displaced:
  "fst (addConnection ''user_123'' (2::nat)
        (snd (addConnection ''user_123'' 1 Map.empty))) \<noteq> Some 1"
  by (simp add: addConnection_def)

text \<open>
  C2, as the code has it. \<open>removeConnection(u)\<close> takes no connection and removes the
  entry of \<open>u\<close> whichever connection it holds; the entries of other users stay.
\<close>

theorem removeConnection_unconditional:
  "getConnection u (removeConnection u conns) = None \<and>
   \<not> hasConnection u (removeConnection u conns) \<and>
   (v \<noteq> u \<longrightarrow> getConnection v (removeConnection u conns) = getConnection v conns)"
  by (simp add: getConnection_def hasConnection_def removeConnection_def)

theorem removeConnection_unconditional_witness:
  "''user_456'' \<noteq> ''user_123'' \<and>
   getConnection ''user_123''
     (removeConnection ''user_123''
        (snd (addConnection ''user_123'' (2::nat)
           (snd (addConnection ''user_123'' 1 [''user_456'' \<mapsto> 3]))))) = None \<and>
   getConnection ''user_456''
     (removeConnection ''user_123''
        (snd (addConnection ''user_123'' (2::nat)
           (snd (addConnection ''user_123'' 1 [''user_456'' \<mapsto> 3]))))) = Some 3"
proof -
  have h: "''user_456'' \<noteq> ''user_123''" by simp
  show ?thesis
    using h removeConnection_unconditional [of "''user_123''"
        "snd (addConnection ''user_123'' (2::nat)
           (snd (addConnection ''user_123'' 1 [''user_456'' \<mapsto> 3])))" "''user_456''"]
    by (simp add: getConnection_def addConnection_def)
qed

text \<open>
  C2 as stated fails: connection 1 of \<open>user_123\<close> has been displaced by connection 2;
  the teardown of connection 1 calls \<open>removeConnection("user_123")\<close>, after which the
  lookup no longer returns connection 2.
\<close>

theorem removeConnection_evicts_replacement:
  "getConnection ''user_123''
     (removeConnection ''user_123''
        (snd (addConnection ''user_123'' (2::nat)
           (snd (addConnection ''user_123'' 1 Map.empty))))) \<noteq> Some 2"
  by (simp add: getConnection_def addConnection_def removeConnection_def)

section \<open>Authenticator\<close>

text \<open>
  C3, as the code has it. An empty or whitespace-only token gives the failure
  \<open>Missing JWT token\<close> and the provider is not called. Any other token is passed to the
  provider exactly once. An error of the provider gives a failure with the provider's
  message verbatim; no error and no user gives a failure with the fixed text
  \<open>No user found for token\<close>; no error and a user gives success with the user's id and
  email; an exception gives a failure with \<open>JWT validation failed: \<close> before its message.
\<close>

theorem validateJWT_outcomes:
  "(jwt = [] \<or> list_all js_whitespace jwt \<longrightarrow>
      validateJWT supabase jwt = ([], Inl ''Missing JWT token'')) \<and>
   (\<not> (jwt = [] \<or> list_all js_whitespace jwt) \<longrightarrow>
      fst (validateJWT supabase jwt) = [jwt] \<and>
      (\<forall>m usr. supabase jwt = Resolved (Some m) usr \<longrightarrow>
         snd (validateJWT supabase jwt) = Inl m) \<and>
      (supabase jwt = Resolved None None \<longrightarrow>
         snd (validateJWT supabase jwt) = Inl ''No user found for token'') \<and>
      (\<forall>u. supabase jwt = Resolved None (Some u) \<longrightarrow>
         snd (validateJWT supabase jwt) =
           Inr \<lparr>ad_userId = user_id u, ad_email = user_email u\<rparr>) \<and>
      (\<forall>m. supabase jwt = Threw m \<longrightarrow>
         snd (validateJWT supabase jwt) = Inl (''JWT validation failed: '' @ m)))"
proof (cases "jwt = [] \<or> list_all js_whitespace jwt")
  case True
  then show ?thesis by (simp add: validateJWT_missing)
next
  case False
  then show ?thesis by (simp add: validateJWT_delegates)
qed

theorem validateJWT_outcomes_witness:
  "validateJWT mockSupabase ''  '' = ([], Inl ''Missing JWT token'') \<and>
   validateJWT mockSupabase ''valid_jwt_token'' =
     ([''valid_jwt_token''],
      Inr \<lparr>ad_userId = ''user_123'', ad_email = ''test@example.com''\<rparr>) \<and>
   validateJWT mockSupabase ''expired_jwt_token'' =
     ([''expired_jwt_token''], Inl ''JWT expired'') \<and>
   validateJWT silentSupabase ''valid_jwt_token'' =
     ([''valid_jwt_token''], Inl ''No user found for token'') \<and>
   validateJWT throwingSupabase ''valid_jwt_token'' =
     ([''valid_jwt_token''], Inl ''JWT validation failed: network down'')"
proof -
  have blank: "''  '' = [] \<or> list_all js_whitespace ''  ''"
    by (simp add: js_whitespace_def)
  have valid: "\<not> (''valid_jwt_token'' = [] \<or> list_all js_whitespace ''valid_jwt_token'')"
    by (simp add: js_whitespace_def)
  have expired:
    "\<not> (''expired_jwt_token'' = [] \<or> list_all js_whitespace ''expired_jwt_token'')"
    by (simp add: js_whitespace_def)
  have u: "mockSupabase ''valid_jwt_token'' =
      Resolved None (Some \<lparr>user_id = ''user_123'', user_email = ''test@example.com''\<rparr>)"
    by (simp add: mockSupabase_def)
  have e: "mockSupabase ''expired_jwt_token'' = Resolved (Some ''JWT expired'') None"
    by (simp add: mockSupabase_def)
  show ?thesis
    using validateJWT_outcomes [of "''  ''" mockSupabase]
      validateJWT_outcomes [of "''valid_jwt_token''" mockSupabase]
      validateJWT_outcomes [of "''expired_jwt_token''" mockSupabase]
      validateJWT_outcomes [of "''valid_jwt_token''" silentSupabase]
      validateJWT_outcomes [of "''valid_jwt_token''" throwingSupabase]
      blank valid expired u e
    by (simp add: prod_eq_iff silentSupabase_def throwingSupabase_def)
qed

text \<open>
  C3 as stated fails: a provider that reports no error and no user has no message, and
  the failure carries a text of \<open>validateJWT\<close>'s own.
\<close>

theorem validateJWT_absent_user_message:
  "error_message (silentSupabase ''abc'') = None \<and>
   data_user (silentSupabase ''abc'') = None \<and>
   validateJWT silentSupabase ''abc'' = ([''abc''], Inl ''No user found for token'')"
  by (simp add: silentSupabase_def validateJWT_def trim_def js_whitespace_def)

text \<open>
  C10. When the handshake URL parses and the value of its first \<open>token\<close> parameter is
  empty, \<open>extractJWTFromURL\<close> returns the empty string, not null, and \<open>validateJWT\<close> on
  the empty string fails with \<open>Missing JWT token\<close> without a call to the provider. A
  URL that does not parse and a URL without a \<open>token\<close> parameter both give null.
\<close>

theorem extractJWTFromURL_empty_token:
  "(newURL url1 = Some params1 \<and> map_of params1 ''token'' = Some [] \<longrightarrow>
      extractJWTFromURL newURL url1 = Some [] \<and>
      validateJWT supabase [] = ([], Inl ''Missing JWT token'')) \<and>
   (newURL url2 = None \<longrightarrow> extractJWTFromURL newURL url2 = None) \<and>
   (newURL url3 = Some params3 \<and> map_of params3 ''token'' = None \<longrightarrow>
      extractJWTFromURL newURL url3 = None)"
  by (simp add: extractJWTFromURL_def validateJWT_missing)

theorem extractJWTFromURL_empty_token_witness:
  "fixtureURL ''ws://host/ws?token='' = Some [(''token'', [])] \<and>
   map_of [(''token'', [])] ''token'' = Some ([] :: string) \<and>
   fixtureURL ''not-a-url'' = None \<and>
   fixtureURL ''ws://host/ws'' = Some [] \<and>
   map_of ([] :: (string \<times> string) list) ''token'' = None \<and>
   extractJWTFromURL fixtureURL ''ws://host/ws?token='' = Some [] \<and>
   validateJWT mockSupabase [] = ([], Inl ''Missing JWT token'') \<and>
   extractJWTFromURL fixtureURL ''not-a-url'' = None \<and>
   extractJWTFromURL fixtureURL ''ws://host/ws'' = None"
proof -
  have h1: "fixtureURL ''ws://host/ws?token='' = Some [(''token'', [])]"
    by (simp add: fixtureURL_def)
  have h2: "map_of [(''token'', [])] ''token'' = Some ([] :: string)" by simp
  have h3: "fixtureURL ''not-a-url'' = None" by (simp add: fixtureURL_def)
  have h4: "fixtureURL ''ws://host/ws'' = Some []" by (simp add: fixtureURL_def)
  have h5: "map_of ([] :: (string \<times> string) list) ''token'' = None" by simp
  show ?thesis
    using h1 h2 h3 h4 h5
      extractJWTFromURL_empty_token [of fixtureURL "''ws://host/ws?token=''"
        "[(''token'', [])]" mockSupabase "''not-a-url''" "''ws://host/ws''" "[]"]
    by simp
qed

section \<open>Transformations\<close>

text \<open>
  C6, as the code has it. \<open>friendshipToRealtimeRequest\<close> never reads the id of the
  requester profile: the target is always \<open>user2_id\<close> and the requester always
  \<open>user1_id\<close>, and the requester name is the profile's display name. The target is the
  non-requesting side of the pair when the requester is \<open>user1_id\<close>.
\<close>

theorem friendshipToRealtimeRequest_target:
  "targetUserId (rm_payload (friendshipToRealtimeRequest f p)) = fr_user2_id f \<and>
   requesterId (rm_payload (friendshipToRealtimeRequest f p)) = fr_user1_id f \<and>
   requesterName (rm_payload (friendshipToRealtimeRequest f p)) = up_display_name p \<and>
   (up_id p = fr_user1_id f \<and> fr_user1_id f \<noteq> fr_user2_id f \<longrightarrow>
      targetUserId (rm_payload (friendshipToRealtimeRequest f p)) \<noteq> up_id p \<and>
      targetUserId (rm_payload (friendshipToRealtimeRequest f p))
        \<in> {fr_user1_id f, fr_user2_id f})"
  by (auto simp: friendshipToRealtimeRequest_def)

theorem friendshipToRealtimeRequest_target_witness:
  "up_id (userProfileWith ''123e4567-e89b-12d3-a456-426614174000'') =
     fr_user1_id validFriendship \<and>
   fr_user1_id validFriendship \<noteq> fr_user2_id validFriendship \<and>
   targetUserId (rm_payload (friendshipToRealtimeRequest validFriendship
       (userProfileWith ''123e4567-e89b-12d3-a456-426614174000''))) =
     ''123e4567-e89b-12d3-a456-426614174002'' \<and>
   requesterName (rm_payload (friendshipToRealtimeRequest validFriendship
       (userProfileWith ''123e4567-e89b-12d3-a456-426614174000''))) = ''Test User''"
proof -
  have h1: "up_id (userProfileWith ''123e4567-e89b-12d3-a456-426614174000'') =
      fr_user1_id validFriendship"
    by (simp add: userProfileWith_def validFriendship_def)
  have h2: "fr_user1_id validFriendship \<noteq> fr_user2_id validFriendship"
    by (simp add: validFriendship_def)
  show ?thesis
    using h1 h2 friendshipToRealtimeRequest_target [of validFriendship
        "userProfileWith ''123e4567-e89b-12d3-a456-426614174000''"]
    by (simp add: userProfileWith_def validFriendship_def)
qed

text \<open>
  C6 as stated fails: when the requester is \<open>user2_id\<close> of the record, the target of
  the request is the requester itself.
\<close>

theorem friendshipToRealtimeRequest_targets_requester:
  "up_id (userProfileWith ''123e4567-e89b-12d3-a456-426614174002'')
     \<in> {fr_user1_id validFriendship, fr_user2_id validFriendship} \<and>
   targetUserId (rm_payload (friendshipToRealtimeRequest validFriendship
       (userProfileWith ''123e4567-e89b-12d3-a456-426614174002''))) =
     up_id (userProfileWith ''123e4567-e89b-12d3-a456-426614174002'')"
  by (simp add: friendshipToRealtimeRequest_def userProfileWith_def validFriendship_def)

text \<open>
  C7. Turning a chat record into a realtime message and back, with the record's id as
  the generated id, keeps sender, receiver, content and message type (and the id).
\<close>

theorem chat_round_trip:
  "cd_sender_id (realtimeChatToRecord (chatRecordToRealtime r) (cm_id r)) = cm_sender_id r \<and>
   cd_receiver_id (realtimeChatToRecord (chatRecordToRealtime r) (cm_id r)) = cm_receiver_id r \<and>
   cd_content (realtimeChatToRecord (chatRecordToRealtime r) (cm_id r)) = cm_content r \<and>
   cd_message_type (realtimeChatToRecord (chatRecordToRealtime r) (cm_id r)) =
     cm_message_type r \<and>
   cd_id (realtimeChatToRecord (chatRecordToRealtime r) (cm_id r)) = cm_id r"
  by (simp add: realtimeChatToRecord_def chatRecordToRealtime_def)

theorem chat_round_trip_witness:
  "realtimeChatToRecord (chatRecordToRealtime validChatMessageRecord)
     (cm_id validChatMessageRecord) =
   \<lparr>cd_id = ''123e4567-e89b-12d3-a456-426614174004'',
    cd_sender_id = ''123e4567-e89b-12d3-a456-426614174000'',
    cd_receiver_id = ''123e4567-e89b-12d3-a456-426614174002'',
    cd_content = ''Hello friend!'',
    cd_message_type = Text\<rparr>"
  using chat_round_trip [of validChatMessageRecord]
  by (simp add: validChatMessageRecord_def)

text \<open>
  C8. \<open>ensureFriendshipOrdering\<close> gives the same pair for both orders of its
  arguments, and the pair is the smaller identifier followed by the larger one in the
  linear order of strings by code units.
\<close>

theorem ensureFriendshipOrdering_canonical:
  "ensureFriendshipOrdering a b = ensureFriendshipOrdering b a \<and>
   ensureFriendshipOrdering a b = (min a b, max a b)"
  by (auto simp: ensureFriendshipOrdering_def min_def max_def)

theorem ensureFriendshipOrdering_canonical_witness:
  "ensureFriendshipOrdering ''123e4567-e89b-12d3-a456-426614174002''
     ''123e4567-e89b-12d3-a456-426614174000'' =
   ensureFriendshipOrdering ''123e4567-e89b-12d3-a456-426614174000''
     ''123e4567-e89b-12d3-a456-426614174002'' \<and>
   ensureFriendshipOrdering ''123e4567-e89b-12d3-a456-426614174002''
     ''123e4567-e89b-12d3-a456-426614174000'' =
   (''123e4567-e89b-12d3-a456-426614174000'', ''123e4567-e89b-12d3-a456-426614174002'')"
  using ensureFriendshipOrdering_canonical [of "''123e4567-e89b-12d3-a456-426614174002''"
      "''123e4567-e89b-12d3-a456-426614174000''"]
  by (simp add: ensureFriendshipOrdering_def)

section \<open>Validators\<close>

text \<open>
  C4, as the code has it. For a game-move payload of game type \<open>tic_tac_toe\<close> with
  move data, a finite number as \<open>moveData.position\<close> is accepted exactly when it lies
  between 0 and 8, integer or not; an infinity and a position that is not a number are
  reported. For an integer position this is the range 0 to 8: the positions 0 to 8 pass
  and -1, 9, 10 and 100 are reported.
\<close>

theorem validateGameMovePayload_position:
  assumes "truthy payload" and "typeof payload = ''object''"
    and "get payload ''gameType'' = JStr ''tic_tac_toe''"
    and "truthy (get payload ''moveData'')"
  shows "(get (get payload ''moveData'') ''position'' = JNum (Finite r) \<longrightarrow>
            (''Tic-tac-toe position must be a number between 0 and 8''
               \<notin> set (errors (validateGameMovePayload payload))) = (0 \<le> r \<and> r \<le> 8)) \<and>
         (get (get payload ''moveData'') ''position'' = JNum (Finite (of_int k)) \<longrightarrow>
            (''Tic-tac-toe position must be a number between 0 and 8''
               \<notin> set (errors (validateGameMovePayload payload))) = (0 \<le> k \<and> k \<le> 8)) \<and>
         (get (get payload ''moveData'') ''position'' = JNum PosInf \<or>
          get (get payload ''moveData'') ''position'' = JNum NegInf \<or>
          typeof (get (get payload ''moveData'') ''position'') \<noteq> ''number'' \<longrightarrow>
            ''Tic-tac-toe position must be a number between 0 and 8''
               \<in> set (errors (validateGameMovePayload payload)))"
proof -
  have key: "(''Tic-tac-toe position must be a number between 0 and 8''
            \<in> set (errors (validateGameMovePayload payload))) =
        position_out_of_range (get (get payload ''moveData'') ''position'')"
    using assms
    by (simp add: validateGameMovePayload_def errors_result_of
        set_push_if strict_eq_JStr)
  have fin: "position_out_of_range (JNum (Finite x)) = (\<not> (0 \<le> x \<and> x \<le> 8))" for x
    by auto
  have other: "typeof v \<noteq> ''number'' \<Longrightarrow> position_out_of_range v" for v
    by (cases v) simp_all
  show ?thesis
    unfolding key
  proof (intro conjI impI)
    assume "get (get payload ''moveData'') ''position'' = JNum (Finite r)"
    then show "(\<not> position_out_of_range (get (get payload ''moveData'') ''position'')) =
        (0 \<le> r \<and> r \<le> 8)"
      by (simp only: fin) simp
  next
    assume "get (get payload ''moveData'') ''position'' = JNum (Finite (of_int k))"
    then show "(\<not> position_out_of_range (get (get payload ''moveData'') ''position'')) =
        (0 \<le> k \<and> k \<le> 8)"
      by (simp only: fin) simp
  next
    assume "get (get payload ''moveData'') ''position'' = JNum PosInf \<or>
      get (get payload ''moveData'') ''position'' = JNum NegInf \<or>
      typeof (get (get payload ''moveData'') ''position'') \<noteq> ''number''"
    then show "position_out_of_range (get (get payload ''moveData'') ''position'')"
      using other by auto
  qed
qed

theorem validateGameMovePayload_position_witness:
  "list_all (\<lambda>k. ''Tic-tac-toe position must be a number between 0 and 8''
       \<notin> set (errors (validateGameMovePayload (gameMovePayloadWith (JNum (Finite (of_int k)))))))
     [0, 1, 2, 3, 4, 5, 6, 7, 8] \<and>
   list_all (\<lambda>k. ''Tic-tac-toe position must be a number between 0 and 8''
       \<in> set (errors (validateGameMovePayload (gameMovePayloadWith (JNum (Finite (of_int k)))))))
     [- 1, 9, 10, 100] \<and>
   ''Tic-tac-toe position must be a number between 0 and 8''
       \<in> set (errors (validateGameMovePayload (gameMovePayloadWith (JStr ''4''))))"
proof -
  have h1: "truthy (gameMovePayloadWith v)" for v
    by (simp add: gameMovePayloadWith_def)
  have h2: "typeof (gameMovePayloadWith v) = ''object''" for v
    by (simp add: gameMovePayloadWith_def)
  have h3: "get (gameMovePayloadWith v) ''gameType'' = JStr ''tic_tac_toe''" for v
    by (simp add: gameMovePayloadWith_def)
  have h4: "truthy (get (gameMovePayloadWith v) ''moveData'')" for v
    by (simp add: gameMovePayloadWith_def)
  have h5: "get (get (gameMovePayloadWith v) ''moveData'') ''position'' = v" for v
    by (simp add: gameMovePayloadWith_def)
  have int: "(''Tic-tac-toe position must be a number between 0 and 8''
       \<notin> set (errors (validateGameMovePayload (gameMovePayloadWith (JNum (Finite (of_int k)))))))
       = (0 \<le> k \<and> k \<le> 8)" for k :: int
    using validateGameMovePayload_position [OF h1 [of "JNum (Finite (of_int k))"]
        h2 [of "JNum (Finite (of_int k))"] h3 [of "JNum (Finite (of_int k))"]
        h4 [of "JNum (Finite (of_int k))"], where k = k] h5
    by simp
  have str: "''Tic-tac-toe position must be a number between 0 and 8''
       \<in> set (errors (validateGameMovePayload (gameMovePayloadWith (JStr ''4''))))"
    using validateGameMovePayload_position [OF h1 [of "JStr ''4''"] h2 [of "JStr ''4''"]
        h3 [of "JStr ''4''"] h4 [of "JStr ''4''"]] h5
    by simp
  from int [of 0] int [of 1] int [of 2] int [of 3] int [of 4] int [of 5] int [of 6]
    int [of 7] int [of 8] int [of "- 1"] int [of 9] int [of 10] int [of 100] str
  show ?thesis by simp
qed

text \<open>
  C4 as stated fails: the position 4.5 is not an integer, and the payload that carries
  it is reported valid, without a position violation.
\<close>

theorem validateGameMovePayload_accepts_fraction:
  "(9 / 2 :: rat) \<notin> \<int> \<and>
   validateGameMovePayload (gameMovePayloadWith (JNum (Finite (9 / 2)))) =
     \<lparr>isValid = True, errors = []\<rparr>"
proof
  show "(9 / 2 :: rat) \<notin> \<int>" by (rule nine_halves_not_int)
  show "validateGameMovePayload (gameMovePayloadWith (JNum (Finite (9 / 2)))) =
     \<lparr>isValid = True, errors = []\<rparr>"
    by code_simp
qed







end
